theory Spec2Isabelle
  imports Main "HOL-Library.AList" "HOL-Library.Char_ord" "HOL-Library.List_Lexorder"
    "HOL-Library.Product_Lexorder"
begin

section \<open>Request signing of awscli/botocore/auth.py\<close>

text \<open>
  A shallow embedding of the signers of \<^verbatim>\<open>src/awscli/botocore/auth.py\<close>.
  Python exceptions are values of the type \<open>error\<close>; a function that mutates the
  request returns the request it leaves behind together with the exception it raised,
  if any, because the caller still holds the mutated object after a raise.
\<close>

subsection \<open>Exceptions\<close>

datatype error =
    NoCredentialsError
  | NoAuthTokenError
  | UnknownSignatureVersionError string
  | UnsupportedSignatureVersionError "string list"
  | AttributeError
  | TypeError
  | KeyError
  | ValueError
  | IndexError
  | IOError

subsection \<open>Python strings\<close>

text \<open>
  A Python \<^verbatim>\<open>str\<close> or \<^verbatim>\<open>bytes\<close> is a \<open>string\<close> of ASCII characters;
  \<^verbatim>\<open>encode('utf-8')\<close> and \<^verbatim>\<open>decode('utf-8')\<close> are the identity on them. The
  order on strings is the lexicographic order on character codes, as Python's. Case
  conversion is the ASCII one.
\<close>

definition lower_char :: "char \<Rightarrow> char" where
  "lower_char c =
     (case map_of (zip ''ABCDEFGHIJKLMNOPQRSTUVWXYZ'' ''abcdefghijklmnopqrstuvwxyz'') c of
        Some d \<Rightarrow> d | None \<Rightarrow> c)"

definition upper_char :: "char \<Rightarrow> char" where
  "upper_char c =
     (case map_of (zip ''abcdefghijklmnopqrstuvwxyz'' ''ABCDEFGHIJKLMNOPQRSTUVWXYZ'') c of
        Some d \<Rightarrow> d | None \<Rightarrow> c)"

definition lower :: "string \<Rightarrow> string" where
  "lower s = map lower_char s"

definition upper :: "string \<Rightarrow> string" where
  "upper s = map upper_char s"

text \<open>
  The ASCII characters that \<^verbatim>\<open>str.split()\<close> and \<^verbatim>\<open>str.strip()\<close> take for white
  space: tab, line feed, vertical tab, form feed, carriage return, the four separators
  0x1C to 0x1F and the space. \<^verbatim>\<open>bytes.strip()\<close> takes the six of them that are not
  separators.
\<close>

definition is_space :: "char \<Rightarrow> bool" where
  "is_space c =
     (c \<in> set [CHR 0x09, CHR 0x0A, CHR 0x0B, CHR 0x0C, CHR 0x0D,
                CHR 0x1C, CHR 0x1D, CHR 0x1E, CHR 0x1F, CHR '' ''])"

definition is_space_bytes :: "char \<Rightarrow> bool" where
  "is_space_bytes c = (c \<in> set [CHR 0x09, CHR 0x0A, CHR 0x0B, CHR 0x0C, CHR 0x0D, CHR '' ''])"

definition strip :: "string \<Rightarrow> string" where
  "strip s = rev (dropWhile is_space (rev (dropWhile is_space s)))"

definition strip_bytes :: "string \<Rightarrow> string" where
  "strip_bytes s = rev (dropWhile is_space_bytes (rev (dropWhile is_space_bytes s)))"

text \<open>\<^verbatim>\<open>s.split()\<close>: the maximal runs of characters that are not white space.\<close>

fun split_ws_acc :: "string \<Rightarrow> string \<Rightarrow> string list" where
  "split_ws_acc w [] = (if w = [] then [] else [w])"
| "split_ws_acc w (c # cs) =
     (if is_space c then (if w = [] then split_ws_acc [] cs else w # split_ws_acc [] cs)
      else split_ws_acc (w @ [c]) cs)"

definition split_ws :: "string \<Rightarrow> string list" where
  "split_ws s = split_ws_acc [] s"

text \<open>\<^verbatim>\<open>s.split(c)\<close> for a one-character separator.\<close>

fun split_on :: "char \<Rightarrow> string \<Rightarrow> string list" where
  "split_on c [] = [[]]"
| "split_on c (x # xs) =
     (if x = c then [] # split_on c xs
      else (case split_on c xs of w # ws \<Rightarrow> (x # w) # ws | [] \<Rightarrow> [[x]]))"

text \<open>\<^verbatim>\<open>key, _, value = s.partition(c)\<close>.\<close>

definition partition_on :: "char \<Rightarrow> string \<Rightarrow> string \<times> string" where
  "partition_on c s = (takeWhile (\<lambda>x. x \<noteq> c) s, drop 1 (dropWhile (\<lambda>x. x \<noteq> c) s))"

fun join :: "string \<Rightarrow> string list \<Rightarrow> string" where
  "join sep [] = []"
| "join sep [x] = x"
| "join sep (x # y # ys) = x @ sep @ join sep (y # ys)"

definition startswith :: "string \<Rightarrow> string \<Rightarrow> bool" where
  "startswith s p = (take (length p) s = p)"

definition NL :: string where
  "NL = [CHR 0x0A]"

text \<open>\<^verbatim>\<open>str(n)\<close> for an integer.\<close>

definition digit_char :: "nat \<Rightarrow> char" where
  "digit_char d = ''0123456789'' ! d"

function str_nat :: "nat \<Rightarrow> string" where
  "str_nat n = (if n < 10 then [digit_char n] else str_nat (n div 10) @ [digit_char (n mod 10)])"
  by pat_completeness auto
termination
  by (relation "measure id") auto

declare str_nat.simps [simp del]

definition str_int :: "int \<Rightarrow> string" where
  "str_int i = (if i < 0 then CHR ''-'' # str_nat (nat (- i)) else str_nat (nat i))"

text \<open>
  A key or a value of a dictionary of parameters: a text, an integer, a truth value or
  \<^verbatim>\<open>None\<close>; and \<^verbatim>\<open>str(value)\<close>.
\<close>

datatype pyval = PStr string | PInt int | PBool bool | PNone

fun py_str :: "pyval \<Rightarrow> string" where
  "py_str (PStr s) = s"
| "py_str (PInt i) = str_int i"
| "py_str (PBool b) = (if b then ''True'' else ''False'')"
| "py_str PNone = ''None''"

text \<open>\<^verbatim>\<open>'%s' % v\<close> for a value that may be \<^verbatim>\<open>None\<close>.\<close>

fun str_opt :: "string option \<Rightarrow> string" where
  "str_opt None = ''None''"
| "str_opt (Some s) = s"

subsection \<open>Results that may raise\<close>

fun bindE :: "error + 'a \<Rightarrow> ('a \<Rightarrow> error + 'b) \<Rightarrow> error + 'b" where
  "bindE (Inl e) f = Inl e"
| "bindE (Inr x) f = f x"

text \<open>Evaluating \<open>f\<close> on a list from left to right; the first exception ends it.\<close>

fun mapE :: "('a \<Rightarrow> error + 'b) \<Rightarrow> 'a list \<Rightarrow> error + 'b list" where
  "mapE f [] = Inr []"
| "mapE f (x # xs) =
     (case f x of
        Inl e \<Rightarrow> Inl e
      | Inr y \<Rightarrow> (case mapE f xs of Inl e \<Rightarrow> Inl e | Inr ys \<Rightarrow> Inr (y # ys)))"

subsection \<open>Dictionaries\<close>

text \<open>
  A \<^verbatim>\<open>dict\<close> is an association list with distinct keys in insertion order:
  \<^verbatim>\<open>d[k] = v\<close> is \<open>AList.update k v d\<close> (it replaces in place or appends), and
  \<^verbatim>\<open>d.update(e)\<close> for a dictionary \<open>e\<close> stores the items of \<open>e\<close> from left to right.
\<close>

definition dict_update :: "('k \<times> 'v) list \<Rightarrow> ('k \<times> 'v) list \<Rightarrow> ('k \<times> 'v) list" where
  "dict_update d e = fold (\<lambda>(k, v) acc. AList.update k v acc) e d"

subsection \<open>The header container\<close>

text \<open>
  Modelled from the spec: the header container (\<^verbatim>\<open>botocore.compat.HTTPHeaders\<close>, whose
  class is not under \<^verbatim>\<open>src/\<close>) is a case-insensitive multimap from header names to
  values that keeps insertion order and allows several values per name. It is the list of
  its (name, value) items. A membership test and a deletion compare names without regard to
  case; a deletion removes every item of the name; an assignment appends an item (which is
  why the signers delete a header before they set it); a lookup returns the first value
  of the name, or \<^verbatim>\<open>None\<close>. A value is \<open>None\<close> when the code stores Python's
  \<^verbatim>\<open>None\<close>.
\<close>

type_synonym headers = "(string \<times> string option) list"

definition hdr_contains :: "headers \<Rightarrow> string \<Rightarrow> bool" where
  "hdr_contains h name = (lower name \<in> set (map (\<lambda>(n, v). lower n) h))"

definition hdr_del :: "headers \<Rightarrow> string \<Rightarrow> headers" where
  "hdr_del h name = filter (\<lambda>(n, v). lower n \<noteq> lower name) h"

definition hdr_set :: "headers \<Rightarrow> string \<Rightarrow> string option \<Rightarrow> headers" where
  "hdr_set h name v = h @ [(name, v)]"

definition hdr_get_all :: "headers \<Rightarrow> string \<Rightarrow> string option list" where
  "hdr_get_all h name = map snd (filter (\<lambda>(n, v). lower n = lower name) h)"

definition hdr_get :: "headers \<Rightarrow> string \<Rightarrow> string option" where
  "hdr_get h name = (case hdr_get_all h name of [] \<Rightarrow> None | v # vs \<Rightarrow> v)"

subsection \<open>Library functions\<close>

text \<open>
  The functions the module imports from the standard library and from
  \<^verbatim>\<open>botocore.compat\<close> and \<^verbatim>\<open>botocore.utils\<close> are parameters of the model,
  collected in one record. Nothing is assumed about them but what a theorem states.
  \<open>urlsplit\<close> may raise, and so may the \<^verbatim>\<open>port\<close> attribute of its result (a port
  that is not a number below 65536): \<open>sr_port\<close> is the outcome of reading the attribute.
  \<open>quote\<close> takes the \<^verbatim>\<open>safe\<close> characters first. \<open>formatdate\<close> stands for
  \<^verbatim>\<open>formatdate(int(calendar.timegm(datetime.strptime(t, SIGV4_TIMESTAMP).timetuple())))\<close>
  as a function of the timestamp \<open>t\<close>. \<open>hmac_digest\<close> and \<open>hmac_hexdigest\<close> are
  \<^verbatim>\<open>hmac.new(key, msg, sha256)\<close> read with \<^verbatim>\<open>digest()\<close> and \<^verbatim>\<open>hexdigest()\<close>.
  \<open>percent_encode_sequence\<close> raises on a key that is not a text.
  \<open>urlencode\<close> is the form encoding of a mapping body.
\<close>

record split_result =
  sr_scheme :: string
  sr_netloc :: string
  sr_path :: string
  sr_query :: string
  sr_fragment :: string
  sr_hostname :: "string option"
  sr_port :: "error + nat option"

datatype condition = CondDict string string | CondList "string list"

record policy =
  conditions :: "condition list option"
  policy_items :: "(string \<times> string) list"

record lib =
  sha256_hexdigest :: "string \<Rightarrow> string"
  hmac_digest :: "string \<Rightarrow> string \<Rightarrow> string"
  hmac_hexdigest :: "string \<Rightarrow> string \<Rightarrow> string"
  b64encode :: "string \<Rightarrow> string"
  encodebytes :: "string \<Rightarrow> string"
  quote :: "string \<Rightarrow> string \<Rightarrow> string"
  urlsplit :: "string \<Rightarrow> error + split_result"
  urlunsplit :: "string \<times> string \<times> string \<times> string \<times> string \<Rightarrow> string"
  parse_qs :: "string \<Rightarrow> (string \<times> string list) list"
  percent_encode_sequence :: "(pyval \<times> pyval) list \<Rightarrow> error + string"
  normalize_url_path :: "string \<Rightarrow> string"
  is_valid_ipv6_endpoint_url :: "string \<Rightarrow> bool"
  formatdate :: "string \<Rightarrow> string"
  json_loads :: "string \<Rightarrow> error + (string \<times> pyval) list"
  json_dumps :: "policy \<Rightarrow> string"
  urlencode :: "(string \<times> pyval) list \<Rightarrow> string"

subsection \<open>Requests, credentials and signers\<close>

text \<open>
  A re-seekable reader of bytes: its contents, its position, and an offset at which the
  medium is bad, if any. \<^verbatim>\<open>read(n)\<close> at a position before the bad offset returns the
  bytes up to \<open>n\<close>, the end of the contents or the bad offset, whichever comes first, and
  advances the position; at or after the bad offset it raises. \<^verbatim>\<open>seek\<close> sets the
  position. A reader is a true value.
\<close>

record reader =
  rd_content :: string
  rd_pos :: nat
  rd_bad :: "nat option"

definition rd_read :: "reader \<Rightarrow> nat \<Rightarrow> (error + string) \<times> reader" where
  "rd_read rd n =
     (case rd_bad rd of
        None \<Rightarrow>
          (let chunk = take n (drop (rd_pos rd) (rd_content rd))
           in (Inr chunk, rd\<lparr>rd_pos := rd_pos rd + length chunk\<rparr>))
      | Some b \<Rightarrow>
          if b \<le> rd_pos rd then (Inl IOError, rd)
          else
            (let chunk = take (min n (b - rd_pos rd)) (drop (rd_pos rd) (rd_content rd))
             in (Inr chunk, rd\<lparr>rd_pos := rd_pos rd + length chunk\<rparr>)))"

definition rd_tell :: "reader \<Rightarrow> nat" where
  "rd_tell rd = rd_pos rd"

definition rd_seek :: "reader \<Rightarrow> nat \<Rightarrow> reader" where
  "rd_seek rd p = rd\<lparr>rd_pos := p\<rparr>"

text \<open>
  A reader whose remaining reads all succeed: the medium has no bad offset, or the bad
  offset lies beyond both the position and the end of the contents.
\<close>

definition rd_readable :: "reader \<Rightarrow> bool" where
  "rd_readable rd =
     (case rd_bad rd of
        None \<Rightarrow> True
      | Some b \<Rightarrow> rd_pos rd < b \<and> length (rd_content rd) < b)"

text \<open>
  Iterating a reader (\<^verbatim>\<open>for line in reader\<close>) yields its lines from the position on,
  each with its line feed, the last one possibly without. \<open>split_lines\<close> cuts bytes into
  such lines.
\<close>

fun split_lines_acc :: "string \<Rightarrow> string \<Rightarrow> string list" where
  "split_lines_acc cur [] = (if cur = [] then [] else [cur])"
| "split_lines_acc cur (c # cs) =
     (if c = CHR 0x0A then (cur @ [c]) # split_lines_acc [] cs
      else split_lines_acc (cur @ [c]) cs)"

definition split_lines :: "string \<Rightarrow> string list" where
  "split_lines b = split_lines_acc [] b"

text \<open>
  \<^verbatim>\<open>request.data\<close> is absent, a mapping, a byte sequence, a text, or the reader the
  caller passed as the body. The reader is an object of its own that the caller keeps
  after the call: it is the field \<open>r_stream\<close> of the state, and \<open>DataReader\<close> is the
  reference to it.
\<close>

datatype data =
    DataNone
  | DataDict "(string \<times> pyval) list"
  | DataBytes string
  | DataStr string
  | DataReader

text \<open>\<^verbatim>\<open>request.body\<close>: absent, a byte sequence, or the reader.\<close>

datatype body = NoBody | BodyBytes string | BodyReader

text \<open>
  The value of \<^verbatim>\<open>request_algorithm\<close> in the checksum context: a mapping, or a value
  of another type.
\<close>

datatype algorithm = AlgDict "(string \<times> string) list" | AlgOther

record checksum_context =
  request_algorithm :: "algorithm option"

record s3_config =
  s3_payload_signing_enabled :: "bool option"

record client_config =
  s3 :: "s3_config option"

text \<open>
  The recognised keys of \<^verbatim>\<open>request.context\<close>. \<open>None\<close> is an absent key; for the
  two flags \<open>Some b\<close> is a value whose truth value is \<open>b\<close>.
\<close>

record ctx =
  timestamp :: "string option"
  payload_signing_enabled :: "bool option"
  has_streaming_input :: "bool option"
  checksum :: "checksum_context option"
  ctx_client_config :: "client_config option"
  s3_presign_post_fields :: "(string \<times> string) list option"
  s3_presign_post_policy :: "policy option"

record request =
  r_method :: string
  r_url :: string
  r_headers :: headers
  r_params :: "(string \<times> pyval) list"
  r_data :: data
  r_context :: ctx
  r_stream :: reader

record credentials =
  access_key :: string
  secret_key :: string
  token :: "string option"

text \<open>The signer classes that share \<^verbatim>\<open>SigV4Auth.add_auth\<close> or override it.\<close>

datatype kind =
    SigV4Auth | S3SigV4Auth | S3ExpressAuth
  | SigV4QueryAuth | S3SigV4QueryAuth | S3ExpressQueryAuth
  | S3SigV4PostAuth | S3ExpressPostAuth

record signer =
  sg_kind :: kind
  sg_credentials :: "credentials option"
  sg_service_name :: string
  sg_region_name :: string
  sg_expires :: int

text \<open>
  Modelled from the spec: \<^verbatim>\<open>request.body\<close>, the effective payload used for hashing
  (the request class is not under \<^verbatim>\<open>src/\<close>). It is derived from the data at every
  read: absent for absent or empty data, the form encoding of a mapping, the bytes of a
  byte sequence or of a text, and the reader itself for a reader.
\<close>

definition r_body :: "lib \<Rightarrow> request \<Rightarrow> body" where
  "r_body L request =
     (case r_data request of
        DataNone \<Rightarrow> NoBody
      | DataDict d \<Rightarrow> BodyBytes (urlencode L d)
      | DataBytes b \<Rightarrow> (if b = [] then NoBody else BodyBytes b)
      | DataStr t \<Rightarrow> BodyBytes t
      | DataReader \<Rightarrow> BodyReader)"

subsection \<open>Constants of the module\<close>

definition EMPTY_SHA256_HASH :: string where
  "EMPTY_SHA256_HASH = ''e3b0c44298fc1c149afbf4c8996fb92427ae41e4649b934ca495991b7852b855''"

definition PAYLOAD_BUFFER :: nat where
  "PAYLOAD_BUFFER = 1024 * 1024"

definition SIGNED_HEADERS_BLACKLIST :: "string list" where
  "SIGNED_HEADERS_BLACKLIST = [''expect'', ''user-agent'', ''x-amzn-trace-id'']"

definition UNSIGNED_PAYLOAD :: string where
  "UNSIGNED_PAYLOAD = ''UNSIGNED-PAYLOAD''"

definition STREAMING_UNSIGNED_PAYLOAD_TRAILER :: string where
  "STREAMING_UNSIGNED_PAYLOAD_TRAILER = ''STREAMING-UNSIGNED-PAYLOAD-TRAILER''"

subsection \<open>The SigV4 canonicaliser\<close>

definition default_ports :: "(string \<times> nat) list" where
  "default_ports = [(''http'', 80), (''https'', 443)]"

definition host_from_url :: "lib \<Rightarrow> string \<Rightarrow> error + string option" where
  "host_from_url L url =
     bindE (urlsplit L url) (\<lambda>url_parts.
       (let host = sr_hostname url_parts;
            host = (if is_valid_ipv6_endpoint_url L url then Some (''['' @ str_opt host @ '']'')
                    else host)
        in bindE (sr_port url_parts) (\<lambda>port.
             case port of
               None \<Rightarrow> Inr host
             | Some p \<Rightarrow>
                 if Some p \<noteq> map_of default_ports (sr_scheme url_parts)
                 then Inr (Some (str_opt host @ '':'' @ str_nat p))
                 else Inr host)))"

text \<open>
  \<^verbatim>\<open>_get_body_as_dict\<close> returns the data as they are unless they are bytes or a text,
  which it parses as JSON.
\<close>

definition get_body_as_dict :: "lib \<Rightarrow> request \<Rightarrow> error + data" where
  "get_body_as_dict L request =
     (case r_data request of
        DataBytes b \<Rightarrow> bindE (json_loads L b) (\<lambda>d. Inr (DataDict d))
      | DataStr t \<Rightarrow> bindE (json_loads L t) (\<lambda>d. Inr (DataDict d))
      | other \<Rightarrow> Inr other)"

definition sign :: "lib \<Rightarrow> string \<Rightarrow> string \<Rightarrow> bool \<Rightarrow> string" where
  "sign L key msg hex = (if hex then hmac_hexdigest L key msg else hmac_digest L key msg)"

definition headers_to_sign :: "lib \<Rightarrow> request \<Rightarrow> error + headers" where
  "headers_to_sign L request =
     (let header_map =
            map (\<lambda>(name, v). (lower name, v))
              (filter (\<lambda>(name, v). lower name \<notin> set SIGNED_HEADERS_BLACKLIST)
                 (r_headers request))
      in if \<not> hdr_contains header_map ''host''
         then bindE (host_from_url L (r_url request))
                (\<lambda>host. Inr (hdr_set header_map ''host'' host))
         else Inr header_map)"

definition canonical_query_string_params :: "lib \<Rightarrow> (string \<times> pyval) list \<Rightarrow> string" where
  "canonical_query_string_params L params =
     (let key_val_pairs =
            map (\<lambda>(k, v). (quote L ''-_.~'' k, quote L ''-_.~'' (py_str v))) params;
          sorted_key_vals = map (\<lambda>(k, v). k @ ''='' @ v) (sort key_val_pairs)
      in join ''&'' sorted_key_vals)"

definition canonical_query_string_url :: "split_result \<Rightarrow> string" where
  "canonical_query_string_url parts =
     (if sr_query parts \<noteq> [] then
        (let key_val_pairs = map (partition_on CHR ''='') (split_on CHR ''&'' (sr_query parts));
             sorted_key_vals = map (\<lambda>(k, v). k @ ''='' @ v) (sort key_val_pairs)
         in join ''&'' sorted_key_vals)
      else [])"

definition canonical_query_string :: "lib \<Rightarrow> request \<Rightarrow> error + string" where
  "canonical_query_string L request =
     (if r_params request \<noteq> [] then Inr (canonical_query_string_params L (r_params request))
      else bindE (urlsplit L (r_url request)) (\<lambda>parts. Inr (canonical_query_string_url parts)))"

text \<open>\<^verbatim>\<open>' '.join(value.split())\<close>; on \<^verbatim>\<open>None\<close> the attribute lookup raises.\<close>

definition header_value :: "string option \<Rightarrow> error + string" where
  "header_value v =
     (case v of None \<Rightarrow> Inl AttributeError | Some t \<Rightarrow> Inr (join '' '' (split_ws t)))"

definition canonical_headers :: "headers \<Rightarrow> error + string" where
  "canonical_headers hts =
     (let sorted_header_names = sort (remdups (map fst hts))
      in bindE
           (mapE (\<lambda>key. bindE (mapE header_value (hdr_get_all hts key))
                          (\<lambda>vs. Inr (key @ '':'' @ join '','' vs)))
              sorted_header_names)
           (\<lambda>hs. Inr (join NL hs)))"

text \<open>The sorted list \<^verbatim>\<open>l\<close> of \<^verbatim>\<open>signed_headers\<close>, and its result.\<close>

definition signed_header_list :: "headers \<Rightarrow> string list" where
  "signed_header_list hts = sort (map (\<lambda>n. strip (lower n)) (remdups (map fst hts)))"

definition signed_headers :: "headers \<Rightarrow> string" where
  "signed_headers hts = join '';'' (signed_header_list hts)"

definition is_streaming_checksum_payload :: "request \<Rightarrow> bool" where
  "is_streaming_checksum_payload request =
     (case checksum (r_context request) of
        None \<Rightarrow> False
      | Some checksum_context \<Rightarrow>
          (case request_algorithm checksum_context of
             Some (AlgDict algorithm) \<Rightarrow> map_of algorithm ''in'' = Some ''trailer''
           | _ \<Rightarrow> False))"

definition SigV4Auth_should_sha256_sign_payload :: "request \<Rightarrow> bool" where
  "SigV4Auth_should_sha256_sign_payload request =
     (if \<not> startswith (r_url request) ''https'' then True
      else (case payload_signing_enabled (r_context request) of None \<Rightarrow> True | Some b \<Rightarrow> b))"

definition S3SigV4Auth_should_sha256_sign_payload :: "request \<Rightarrow> error + bool" where
  "S3SigV4Auth_should_sha256_sign_payload request =
     (let s3_config =
            (case ctx_client_config (r_context request) of
               None \<Rightarrow> None
             | Some client_config \<Rightarrow> s3 client_config);
          sign_payload =
            (case s3_config of None \<Rightarrow> None | Some c \<Rightarrow> s3_payload_signing_enabled c)
      in case sign_payload of
           Some b \<Rightarrow> Inr b
         | None \<Rightarrow>
             bindE
               (case checksum (r_context request) of
                  None \<Rightarrow> Inr ''Content-MD5''
                | Some checksum_context \<Rightarrow>
                    (case request_algorithm checksum_context of
                       Some (AlgDict algorithm) \<Rightarrow>
                         if map_of algorithm ''in'' = Some ''header''
                         then (case map_of algorithm ''name'' of
                                 None \<Rightarrow> Inl KeyError | Some n \<Rightarrow> Inr n)
                         else Inr ''Content-MD5''
                     | _ \<Rightarrow> Inr ''Content-MD5''))
               (\<lambda>checksum_header.
                  if \<not> startswith (r_url request) ''https''
                     \<or> \<not> hdr_contains (r_headers request) checksum_header
                  then Inr True
                  else if (case has_streaming_input (r_context request) of
                             None \<Rightarrow> False | Some b \<Rightarrow> b)
                  then Inr False
                  else Inr (SigV4Auth_should_sha256_sign_payload request)))"

text \<open>Method resolution of \<^verbatim>\<open>_should_sha256_sign_payload\<close> along the class hierarchy.\<close>

fun should_sha256_sign_payload :: "kind \<Rightarrow> request \<Rightarrow> error + bool" where
  "should_sha256_sign_payload S3SigV4Auth request = S3SigV4Auth_should_sha256_sign_payload request"
| "should_sha256_sign_payload S3ExpressAuth request = S3SigV4Auth_should_sha256_sign_payload request"
| "should_sha256_sign_payload S3ExpressQueryAuth request = S3SigV4Auth_should_sha256_sign_payload request"
| "should_sha256_sign_payload S3ExpressPostAuth request = S3SigV4Auth_should_sha256_sign_payload request"
| "should_sha256_sign_payload k request = Inr (SigV4Auth_should_sha256_sign_payload request)"

text \<open>
  The loop \<^verbatim>\<open>for chunk in iter(read_chunksize, b''): checksum.update(chunk)\<close>: it reads
  \<^verbatim>\<open>PAYLOAD_BUFFER\<close> bytes at a time until a read returns no bytes. The second
  argument lists the chunks fed to the hash so far; the digest of the incremental hash is
  the digest of their concatenation.
\<close>

function read_chunks :: "reader \<Rightarrow> string list \<Rightarrow> (error + string list) \<times> reader" where
  "read_chunks rd fed =
     (case rd_read rd PAYLOAD_BUFFER of
        (Inl e, rd') \<Rightarrow> (Inl e, rd')
      | (Inr chunk, rd') \<Rightarrow>
          if chunk = [] then (Inr fed, rd') else read_chunks rd' (fed @ [chunk]))"
  by pat_completeness auto
termination
proof (relation "measure (\<lambda>(rd, fed). length (rd_content rd) - rd_pos rd)")
  show "wf (measure (\<lambda>(rd, fed). length (rd_content rd) - rd_pos rd))"
    by simp
next
  fix rd :: reader and fed :: "string list" and x :: "error + string" and rd' :: reader
    and chunk :: string
  assume rd: "(x, rd') = rd_read rd PAYLOAD_BUFFER" and x: "x = Inr chunk"
    and ne: "chunk \<noteq> []"
  have "rd_content rd' = rd_content rd \<and> rd_pos rd' = rd_pos rd + length chunk
        \<and> length chunk \<le> length (rd_content rd) - rd_pos rd"
    using rd x by (auto simp: rd_read_def Let_def split: option.splits if_splits)
  then show "((rd', fed @ [chunk]), (rd, fed))
      \<in> measure (\<lambda>(rd, fed). length (rd_content rd) - rd_pos rd)"
    using ne by (cases chunk) auto
qed

declare read_chunks.simps [simp del]

definition SigV4Auth_payload :: "lib \<Rightarrow> kind \<Rightarrow> request \<Rightarrow> (error + string) \<times> request" where
  "SigV4Auth_payload L k request =
     (if is_streaming_checksum_payload request
      then (Inr STREAMING_UNSIGNED_PAYLOAD_TRAILER, request)
      else
        (case should_sha256_sign_payload k request of
           Inl e \<Rightarrow> (Inl e, request)
         | Inr should_sign \<Rightarrow>
             if \<not> should_sign then (Inr UNSIGNED_PAYLOAD, request)
             else
               (case r_body L request of
                  BodyReader \<Rightarrow>
                    (let position = rd_tell (r_stream request)
                     in case read_chunks (r_stream request) [] of
                          (Inl e, rd') \<Rightarrow> (Inl e, request\<lparr>r_stream := rd'\<rparr>)
                        | (Inr fed, rd') \<Rightarrow>
                            (Inr (sha256_hexdigest L (concat fed)),
                             request\<lparr>r_stream := rd_seek rd' position\<rparr>))
                | BodyBytes request_body \<Rightarrow>
                    if request_body \<noteq> [] then (Inr (sha256_hexdigest L request_body), request)
                    else (Inr EMPTY_SHA256_HASH, request)
                | NoBody \<Rightarrow> (Inr EMPTY_SHA256_HASH, request))))"

text \<open>Method resolution of \<^verbatim>\<open>payload\<close> and of \<^verbatim>\<open>_normalize_url_path\<close>.\<close>

fun payload :: "lib \<Rightarrow> kind \<Rightarrow> request \<Rightarrow> (error + string) \<times> request" where
  "payload L S3SigV4QueryAuth request = (Inr UNSIGNED_PAYLOAD, request)"
| "payload L S3ExpressQueryAuth request = (Inr UNSIGNED_PAYLOAD, request)"
| "payload L k request = SigV4Auth_payload L k request"

fun normalize_path :: "lib \<Rightarrow> kind \<Rightarrow> string \<Rightarrow> string" where
  "normalize_path L SigV4Auth path = quote L ''/~'' (normalize_url_path L path)"
| "normalize_path L SigV4QueryAuth path = quote L ''/~'' (normalize_url_path L path)"
| "normalize_path L S3SigV4PostAuth path = quote L ''/~'' (normalize_url_path L path)"
| "normalize_path L k path = path"

subsection \<open>Canonical request, string to sign, signature\<close>

definition has_header :: "request \<Rightarrow> string \<Rightarrow> bool" where
  "has_header request name = hdr_contains (r_headers request) name"

definition del_header :: "request \<Rightarrow> string \<Rightarrow> request" where
  "del_header request name = request\<lparr>r_headers := hdr_del (r_headers request) name\<rparr>"

definition set_header :: "request \<Rightarrow> string \<Rightarrow> string option \<Rightarrow> request" where
  "set_header request name v = request\<lparr>r_headers := hdr_set (r_headers request) name v\<rparr>"

text \<open>\<^verbatim>\<open>request.context['timestamp']\<close>: a missing key raises.\<close>

definition context_timestamp :: "request \<Rightarrow> error + string" where
  "context_timestamp request =
     (case timestamp (r_context request) of None \<Rightarrow> Inl KeyError | Some t \<Rightarrow> Inr t)"

text \<open>\<^verbatim>\<open>self.credentials.attr\<close>: an attribute of \<^verbatim>\<open>None\<close> raises.\<close>

definition the_credentials :: "signer \<Rightarrow> error + credentials" where
  "the_credentials s =
     (case sg_credentials s of None \<Rightarrow> Inl AttributeError | Some c \<Rightarrow> Inr c)"

text \<open>
  \<^verbatim>\<open>canonical_request\<close> in two parts: the lines up to the signed headers, which read
  the request only, and the last line, which may hash the body.
\<close>

definition canonical_lines :: "lib \<Rightarrow> signer \<Rightarrow> request \<Rightarrow> error + string list" where
  "canonical_lines L s request =
     (let cr0 = upper (r_method request)
      in bindE (urlsplit L (r_url request)) (\<lambda>parts.
           (let path = normalize_path L (sg_kind s) (sr_path parts)
            in bindE (canonical_query_string L request) (\<lambda>cqs.
               bindE (headers_to_sign L request) (\<lambda>hts.
               bindE (canonical_headers hts) (\<lambda>ch.
                 Inr [cr0, path, cqs, ch @ NL, signed_headers hts]))))))"

definition body_checksum :: "lib \<Rightarrow> signer \<Rightarrow> request \<Rightarrow> (error + string) \<times> request" where
  "body_checksum L s request =
     (if has_header request ''X-Amz-Content-SHA256''
      then (case hdr_get (r_headers request) ''X-Amz-Content-SHA256'' of
              None \<Rightarrow> (Inl TypeError, request)
            | Some v \<Rightarrow> (Inr v, request))
      else payload L (sg_kind s) request)"

definition canonical_request :: "lib \<Rightarrow> signer \<Rightarrow> request \<Rightarrow> (error + string) \<times> request" where
  "canonical_request L s request =
     (case canonical_lines L s request of
        Inl e \<Rightarrow> (Inl e, request)
      | Inr cr \<Rightarrow>
          (case body_checksum L s request of
             (Inl e, request') \<Rightarrow> (Inl e, request')
           | (Inr bc, request') \<Rightarrow> (Inr (join NL (cr @ [bc])), request')))"

definition scope :: "signer \<Rightarrow> request \<Rightarrow> error + string" where
  "scope s request =
     bindE (the_credentials s) (\<lambda>c.
     bindE (context_timestamp request) (\<lambda>t.
       Inr (join ''/'' [access_key c, take 8 t, sg_region_name s, sg_service_name s,
                        ''aws4_request''])))"

definition credential_scope :: "signer \<Rightarrow> request \<Rightarrow> error + string" where
  "credential_scope s request =
     bindE (context_timestamp request) (\<lambda>t.
       Inr (join ''/'' [take 8 t, sg_region_name s, sg_service_name s, ''aws4_request'']))"

definition string_to_sign :: "lib \<Rightarrow> signer \<Rightarrow> request \<Rightarrow> string \<Rightarrow> error + string" where
  "string_to_sign L s request canonical_req =
     bindE (context_timestamp request) (\<lambda>t.
     bindE (credential_scope s request) (\<lambda>cs.
       Inr (join NL [''AWS4-HMAC-SHA256'', t, cs, sha256_hexdigest L canonical_req])))"

definition signature :: "lib \<Rightarrow> signer \<Rightarrow> string \<Rightarrow> request \<Rightarrow> error + string" where
  "signature L s sts request =
     bindE (the_credentials s) (\<lambda>c.
     bindE (context_timestamp request) (\<lambda>t.
       (let key = secret_key c;
            k_date = sign L (''AWS4'' @ key) (take 8 t) False;
            k_region = sign L k_date (sg_region_name s) False;
            k_service = sign L k_region (sg_service_name s) False;
            k_signing = sign L k_service ''aws4_request'' False
        in Inr (sign L k_signing sts True))))"

text \<open>
  The statements of \<^verbatim>\<open>SigV4Auth.add_auth\<close> from \<^verbatim>\<open>canonical_request\<close> to
  \<^verbatim>\<open>signature\<close>: the signature of the request as it stands, or the exception.
\<close>

definition sign_request :: "lib \<Rightarrow> signer \<Rightarrow> request \<Rightarrow> (error + string) \<times> request" where
  "sign_request L s request =
     (case canonical_request L s request of
        (Inl e, request) \<Rightarrow> (Inl e, request)
      | (Inr canonical_req, request) \<Rightarrow>
          (bindE (string_to_sign L s request canonical_req)
             (\<lambda>sts. signature L s sts request),
           request))"

subsection \<open>Changes to the request before signing\<close>

definition set_necessary_date_headers :: "lib \<Rightarrow> request \<Rightarrow> error option \<times> request" where
  "set_necessary_date_headers L request =
     (if has_header request ''Date'' then
        (let request = del_header request ''Date''
         in case context_timestamp request of
              Inl e \<Rightarrow> (Some e, request)
            | Inr t \<Rightarrow>
                (let request = set_header request ''Date'' (Some (formatdate L t))
                 in if has_header request ''X-Amz-Date''
                    then (None, del_header request ''X-Amz-Date'')
                    else (None, request)))
      else
        (let request = (if has_header request ''X-Amz-Date''
                        then del_header request ''X-Amz-Date'' else request)
         in case context_timestamp request of
              Inl e \<Rightarrow> (Some e, request)
            | Inr t \<Rightarrow> (None, set_header request ''X-Amz-Date'' (Some t))))"

text \<open>The truth value of \<^verbatim>\<open>self.credentials.token\<close>: set and not empty.\<close>

definition token_truthy :: "credentials \<Rightarrow> bool" where
  "token_truthy c = (case token c of None \<Rightarrow> False | Some t \<Rightarrow> t \<noteq> [])"

definition SigV4Auth_modify_request_before_signing ::
  "lib \<Rightarrow> signer \<Rightarrow> request \<Rightarrow> error option \<times> request" where
  "SigV4Auth_modify_request_before_signing L s request =
     (let request = (if has_header request ''Authorization''
                     then del_header request ''Authorization'' else request)
      in case set_necessary_date_headers L request of
           (Some e, request) \<Rightarrow> (Some e, request)
         | (None, request) \<Rightarrow>
             (case the_credentials s of
                Inl e \<Rightarrow> (Some e, request)
              | Inr c \<Rightarrow>
                  (let request =
                         (if token_truthy c then
                            set_header
                              (if has_header request ''X-Amz-Security-Token''
                               then del_header request ''X-Amz-Security-Token'' else request)
                              ''X-Amz-Security-Token'' (token c)
                          else request)
                   in if \<not> (case payload_signing_enabled (r_context request) of
                               None \<Rightarrow> True | Some b \<Rightarrow> b)
                      then (None,
                            set_header
                              (if has_header request ''X-Amz-Content-SHA256''
                               then del_header request ''X-Amz-Content-SHA256'' else request)
                              ''X-Amz-Content-SHA256'' (Some UNSIGNED_PAYLOAD))
                      else (None, request))))"

definition S3SigV4Auth_modify_request_before_signing ::
  "lib \<Rightarrow> signer \<Rightarrow> request \<Rightarrow> error option \<times> request" where
  "S3SigV4Auth_modify_request_before_signing L s request =
     (case SigV4Auth_modify_request_before_signing L s request of
        (Some e, request) \<Rightarrow> (Some e, request)
      | (None, request) \<Rightarrow>
          (let request = (if has_header request ''X-Amz-Content-SHA256''
                          then del_header request ''X-Amz-Content-SHA256'' else request)
           in case payload L (sg_kind s) request of
                (Inl e, request) \<Rightarrow> (Some e, request)
              | (Inr p, request) \<Rightarrow> (None, set_header request ''X-Amz-Content-SHA256'' (Some p))))"

definition S3ExpressAuth_modify_request_before_signing ::
  "lib \<Rightarrow> signer \<Rightarrow> request \<Rightarrow> error option \<times> request" where
  "S3ExpressAuth_modify_request_before_signing L s request =
     (case S3SigV4Auth_modify_request_before_signing L s request of
        (Some e, request) \<Rightarrow> (Some e, request)
      | (None, request) \<Rightarrow>
          (case the_credentials s of
             Inl e \<Rightarrow>
               (if \<not> has_header request ''x-amz-s3session-token'' then (Some e, request)
                else if has_header request ''X-Amz-Security-Token''
                then (None, del_header request ''X-Amz-Security-Token'')
                else (None, request))
           | Inr c \<Rightarrow>
               (let request = (if \<not> has_header request ''x-amz-s3session-token''
                               then set_header request ''x-amz-s3session-token'' (token c)
                               else request)
                in if has_header request ''X-Amz-Security-Token''
                   then (None, del_header request ''X-Amz-Security-Token'')
                   else (None, request))))"

subsection \<open>The query signers\<close>

text \<open>
  The truth value of \<^verbatim>\<open>request.data\<close>. A reader is a true value.
\<close>

fun data_truthy :: "data \<Rightarrow> bool" where
  "data_truthy DataNone = False"
| "data_truthy (DataDict d) = (d \<noteq> [])"
| "data_truthy (DataBytes b) = (b \<noteq> [])"
| "data_truthy (DataStr t) = (t \<noteq> [])"
| "data_truthy DataReader = True"

text \<open>\<^verbatim>\<open>(k, v[0])\<close> for an item of the parsed query string.\<close>

definition first_value :: "string \<times> string list \<Rightarrow> error + pyval \<times> pyval" where
  "first_value kv =
     (case snd kv of [] \<Rightarrow> Inl IndexError | v # vs \<Rightarrow> Inr (PStr (fst kv), PStr v))"

text \<open>
  \<^verbatim>\<open>query_dict.update(x)\<close> for what \<^verbatim>\<open>_get_body_as_dict\<close> returned. A mapping is
  merged. Anything else is iterated as a sequence of pairs: \<^verbatim>\<open>None\<close> is not iterable;
  the elements of a byte sequence are integers and those of a text are texts of length
  one, neither of which is a pair; the elements of a reader are its lines from the
  position on, and a line of two bytes is the pair of the two byte values. The iteration
  moves the reader and nothing seeks back. \<open>n\<close> counts the position of the reader.
\<close>

fun update_from_lines ::
  "(pyval \<times> pyval) list \<Rightarrow> string list \<Rightarrow> nat \<Rightarrow> (error + (pyval \<times> pyval) list) \<times> nat" where
  "update_from_lines d [] n = (Inr d, n)"
| "update_from_lines d (l # ls) n =
     (if length l = 2
      then update_from_lines
             (AList.update (PInt (int (of_char (l ! 0)))) (PInt (int (of_char (l ! 1)))) d)
             ls (n + 2)
      else (Inl ValueError, n + length l))"

definition dict_update_reader ::
  "(pyval \<times> pyval) list \<Rightarrow> reader \<Rightarrow> (error + (pyval \<times> pyval) list) \<times> reader" where
  "dict_update_reader d rd =
     (case (if rd_readable rd then None else rd_bad rd) of
        None \<Rightarrow>
          (case update_from_lines d (split_lines (drop (rd_pos rd) (rd_content rd))) (rd_pos rd) of
             (res, n) \<Rightarrow> (res, rd\<lparr>rd_pos := n\<rparr>))
      | Some b \<Rightarrow>
          (let avail = take (b - rd_pos rd) (drop (rd_pos rd) (rd_content rd));
               whole = filter (\<lambda>l. last l = CHR 0x0A) (split_lines avail)
           in case update_from_lines d whole (rd_pos rd) of
                (Inl e, n) \<Rightarrow> (Inl e, rd\<lparr>rd_pos := n\<rparr>)
              | (Inr d', n) \<Rightarrow> (Inl IOError, rd\<lparr>rd_pos := max (rd_pos rd) b\<rparr>)))"

definition dict_update_data ::
  "(pyval \<times> pyval) list \<Rightarrow> data \<Rightarrow> reader \<Rightarrow> (error + (pyval \<times> pyval) list) \<times> reader" where
  "dict_update_data d x rd =
     (case x of
        DataDict e \<Rightarrow> (Inr (dict_update d (map (\<lambda>(k, v). (PStr k, v)) e)), rd)
      | DataNone \<Rightarrow> (Inl TypeError, rd)
      | DataBytes b \<Rightarrow> (if b = [] then Inr d else Inl TypeError, rd)
      | DataStr t \<Rightarrow> (if t = [] then Inr d else Inl ValueError, rd)
      | DataReader \<Rightarrow> dict_update_reader d rd)"

text \<open>
  \<^verbatim>\<open>_modify_request_before_signing\<close> of \<^verbatim>\<open>SigV4QueryAuth\<close> and of
  \<^verbatim>\<open>S3ExpressQueryAuth\<close>. The two methods differ in the name of the token parameter
  and in that only the second merges \<^verbatim>\<open>request.params\<close> into the query and clears
  them; \<open>token_key\<close> and \<open>merge_params\<close> carry the difference. The method is
  given in the order of its statements, in four parts: the removal of the automatic
  content type, the dictionary \<^verbatim>\<open>auth_params\<close>, the dictionary
  \<^verbatim>\<open>query_dict\<close> of the operation parameters (with the request as the statements
  leave it), and the new URL.
\<close>

definition drop_auto_content_type :: "request \<Rightarrow> request" where
  "drop_auto_content_type request =
     (let content_type = hdr_get (r_headers request) ''content-type'';
          blacklisted_content_type = ''application/x-www-form-urlencoded; charset=utf-8''
      in if content_type = Some blacklisted_content_type
         then del_header request ''content-type'' else request)"

definition query_auth_params ::
  "string \<Rightarrow> lib \<Rightarrow> signer \<Rightarrow> request \<Rightarrow> error + (pyval \<times> pyval) list" where
  "query_auth_params token_key L s request =
     bindE (headers_to_sign L request) (\<lambda>hts.
       (let signed_hdrs = signed_headers hts
        in bindE (scope s request) (\<lambda>sc.
           bindE (context_timestamp request) (\<lambda>t.
           bindE (the_credentials s) (\<lambda>c.
             (let auth_params =
                    [(PStr ''X-Amz-Algorithm'', PStr ''AWS4-HMAC-SHA256''),
                     (PStr ''X-Amz-Credential'', PStr sc),
                     (PStr ''X-Amz-Date'', PStr t),
                     (PStr ''X-Amz-Expires'', PInt (sg_expires s)),
                     (PStr ''X-Amz-SignedHeaders'', PStr signed_hdrs)]
              in Inr (case token c of
                        None \<Rightarrow> auth_params
                      | Some tok \<Rightarrow>
                          AList.update (PStr token_key) (PStr tok) auth_params)))))))"

definition query_operation_dict ::
  "bool \<Rightarrow> lib \<Rightarrow> split_result \<Rightarrow> request \<Rightarrow> (error + (pyval \<times> pyval) list) \<times> request" where
  "query_operation_dict merge_params L url_parts request =
     (case mapE first_value (parse_qs L (sr_query url_parts)) of
        Inl e \<Rightarrow> (Inl e, request)
      | Inr items \<Rightarrow>
          (let query_dict = dict_update [] items;
               query_dict = (if merge_params \<and> r_params request \<noteq> []
                             then dict_update query_dict
                                    (map (\<lambda>(k, v). (PStr k, v)) (r_params request))
                             else query_dict);
               request = (if merge_params \<and> r_params request \<noteq> []
                          then request\<lparr>r_params := []\<rparr> else request)
           in if data_truthy (r_data request) then
                (case get_body_as_dict L request of
                   Inl e \<Rightarrow> (Inl e, request)
                 | Inr x \<Rightarrow>
                     (case dict_update_data query_dict x (r_stream request) of
                        (Inl e, rd) \<Rightarrow> (Inl e, request\<lparr>r_stream := rd\<rparr>)
                      | (Inr query_dict, rd) \<Rightarrow>
                          (Inr query_dict, request\<lparr>r_stream := rd, r_data := DataStr []\<rparr>)))
              else (Inr query_dict, request)))"

definition query_modify_request_before_signing ::
  "string \<Rightarrow> bool \<Rightarrow> lib \<Rightarrow> signer \<Rightarrow> request \<Rightarrow> error option \<times> request" where
  "query_modify_request_before_signing token_key merge_params L s request =
     (let request = drop_auto_content_type request
      in case query_auth_params token_key L s request of
           Inl e \<Rightarrow> (Some e, request)
         | Inr auth_params \<Rightarrow>
             (case urlsplit L (r_url request) of
                Inl e \<Rightarrow> (Some e, request)
              | Inr p \<Rightarrow>
                  (case query_operation_dict merge_params L p request of
                     (Inl e, request) \<Rightarrow> (Some e, request)
                   | (Inr query_dict, request) \<Rightarrow>
                       (case (if query_dict \<noteq> []
                              then bindE (percent_encode_sequence L query_dict)
                                     (\<lambda>q. Inr (q @ ''&''))
                              else Inr []) of
                          Inl e \<Rightarrow> (Some e, request)
                        | Inr operation_params \<Rightarrow>
                            (case percent_encode_sequence L auth_params of
                               Inl e \<Rightarrow> (Some e, request)
                             | Inr encoded_auth_params \<Rightarrow>
                                 (let new_query_string = operation_params @ encoded_auth_params
                                  in (None,
                                      request\<lparr>r_url := urlunsplit L
                                        (sr_scheme p, sr_netloc p, sr_path p, new_query_string,
                                         sr_fragment p)\<rparr>)))))))"

definition SigV4QueryAuth_modify_request_before_signing ::
  "lib \<Rightarrow> signer \<Rightarrow> request \<Rightarrow> error option \<times> request" where
  "SigV4QueryAuth_modify_request_before_signing =
     query_modify_request_before_signing ''X-Amz-Security-Token'' False"

definition S3ExpressQueryAuth_modify_request_before_signing ::
  "lib \<Rightarrow> signer \<Rightarrow> request \<Rightarrow> error option \<times> request" where
  "S3ExpressQueryAuth_modify_request_before_signing =
     query_modify_request_before_signing ''X-Amz-S3session-Token'' True"

subsection \<open>Signature injection and add_auth of the SigV4 family\<close>

definition SigV4Auth_inject_signature_to_request ::
  "lib \<Rightarrow> signer \<Rightarrow> request \<Rightarrow> string \<Rightarrow> error option \<times> request" where
  "SigV4Auth_inject_signature_to_request L s request sig =
     (case scope s request of
        Inl e \<Rightarrow> (Some e, request)
      | Inr sc \<Rightarrow>
          (case headers_to_sign L request of
             Inl e \<Rightarrow> (Some e, request)
           | Inr hts \<Rightarrow>
               (let l = [''AWS4-HMAC-SHA256 Credential='' @ sc,
                         ''SignedHeaders='' @ signed_headers hts,
                         ''Signature='' @ sig]
                in (None, set_header request ''Authorization'' (Some (join '', '' l))))))"

definition SigV4QueryAuth_inject_signature_to_request ::
  "request \<Rightarrow> string \<Rightarrow> error option \<times> request" where
  "SigV4QueryAuth_inject_signature_to_request request sig =
     (None, request\<lparr>r_url := r_url request @ ''&X-Amz-Signature='' @ sig\<rparr>)"

text \<open>Method resolution of the two hooks of \<^verbatim>\<open>SigV4Auth.add_auth\<close>.\<close>

definition modify_request_before_signing ::
  "lib \<Rightarrow> signer \<Rightarrow> request \<Rightarrow> error option \<times> request" where
  "modify_request_before_signing L s request =
     (case sg_kind s of
        S3SigV4Auth \<Rightarrow> S3SigV4Auth_modify_request_before_signing L s request
      | S3ExpressAuth \<Rightarrow> S3ExpressAuth_modify_request_before_signing L s request
      | S3ExpressPostAuth \<Rightarrow> S3ExpressAuth_modify_request_before_signing L s request
      | SigV4QueryAuth \<Rightarrow> SigV4QueryAuth_modify_request_before_signing L s request
      | S3SigV4QueryAuth \<Rightarrow> SigV4QueryAuth_modify_request_before_signing L s request
      | S3ExpressQueryAuth \<Rightarrow> S3ExpressQueryAuth_modify_request_before_signing L s request
      | _ \<Rightarrow> SigV4Auth_modify_request_before_signing L s request)"

definition inject_signature_to_request ::
  "lib \<Rightarrow> signer \<Rightarrow> request \<Rightarrow> string \<Rightarrow> error option \<times> request" where
  "inject_signature_to_request L s request sig =
     (case sg_kind s of
        SigV4QueryAuth \<Rightarrow> SigV4QueryAuth_inject_signature_to_request request sig
      | S3SigV4QueryAuth \<Rightarrow> SigV4QueryAuth_inject_signature_to_request request sig
      | S3ExpressQueryAuth \<Rightarrow> SigV4QueryAuth_inject_signature_to_request request sig
      | _ \<Rightarrow> SigV4Auth_inject_signature_to_request L s request sig)"

text \<open>
  \<^verbatim>\<open>SigV4Auth.add_auth\<close>. \<open>now\<close> is the reading of the clock,
  \<^verbatim>\<open>datetime.datetime.utcnow().strftime(SIGV4_TIMESTAMP)\<close>. The result is the exception
  raised, if any, and the request as the call leaves it.
\<close>

definition SigV4Auth_add_auth ::
  "lib \<Rightarrow> signer \<Rightarrow> string \<Rightarrow> request \<Rightarrow> error option \<times> request" where
  "SigV4Auth_add_auth L s now request =
     (case sg_credentials s of
        None \<Rightarrow> (Some NoCredentialsError, request)
      | Some c \<Rightarrow>
          (let request = request\<lparr>r_context := (r_context request)\<lparr>timestamp := Some now\<rparr>\<rparr>
           in case modify_request_before_signing L s request of
                (Some e, request) \<Rightarrow> (Some e, request)
              | (None, request) \<Rightarrow>
                  (case sign_request L s request of
                     (Inl e, request) \<Rightarrow> (Some e, request)
                   | (Inr sig, request) \<Rightarrow> inject_signature_to_request L s request sig)))"

subsection \<open>The presigned POST signers\<close>

text \<open>
  \<^verbatim>\<open>fields\<close> and \<^verbatim>\<open>policy\<close> are the objects of the context when the context has
  them, so a change to them is a change to the context at once; otherwise they are fresh
  objects that reach the context in the last two statements only. \<open>alias_store\<close>
  writes a changed object back where it is the context's own.
\<close>

definition alias_store :: "'a option \<Rightarrow> 'a \<Rightarrow> 'a option" where
  "alias_store old new = (case old of None \<Rightarrow> None | Some x \<Rightarrow> Some new)"

text \<open>
  \<^verbatim>\<open>add_auth\<close> of \<^verbatim>\<open>S3SigV4PostAuth\<close> and of \<^verbatim>\<open>S3ExpressPostAuth\<close>, which
  differ in the name of the token field only. Neither tests the credentials.
\<close>

definition post_add_auth ::
  "string \<Rightarrow> lib \<Rightarrow> signer \<Rightarrow> string \<Rightarrow> request \<Rightarrow> error option \<times> request" where
  "post_add_auth token_field L s now request =
     (let request = request\<lparr>r_context := (r_context request)\<lparr>timestamp := Some now\<rparr>\<rparr>;
          ctx_fields = s3_presign_post_fields (r_context request);
          fields = (case ctx_fields of Some f \<Rightarrow> f | None \<Rightarrow> []);
          ctx_policy = s3_presign_post_policy (r_context request);
          policy = (case ctx_policy of
                      Some p \<Rightarrow> p | None \<Rightarrow> \<lparr>conditions = None, policy_items = []\<rparr>);
          conds = (case ctx_policy of
                     Some p \<Rightarrow> (case conditions p of Some c \<Rightarrow> c | None \<Rightarrow> [])
                   | None \<Rightarrow> []);
          policy = policy\<lparr>conditions := Some conds\<rparr>;
          fields = AList.update ''x-amz-algorithm'' ''AWS4-HMAC-SHA256'' fields
      in case scope s request of
           Inl e \<Rightarrow>
             (Some e,
              request\<lparr>r_context := (r_context request)
                \<lparr>s3_presign_post_fields := alias_store ctx_fields fields,
                 s3_presign_post_policy := alias_store ctx_policy policy\<rparr>\<rparr>)
         | Inr sc \<Rightarrow>
             (let fields = AList.update ''x-amz-credential'' sc fields;
                  fields = AList.update ''x-amz-date'' now fields;
                  conds = conds @ [CondDict ''x-amz-algorithm'' ''AWS4-HMAC-SHA256'',
                                   CondDict ''x-amz-credential'' sc,
                                   CondDict ''x-amz-date'' now];
                  tok = (case sg_credentials s of None \<Rightarrow> None | Some c \<Rightarrow> token c);
                  fields = (case tok of
                              None \<Rightarrow> fields | Some t \<Rightarrow> AList.update token_field t fields);
                  conds = (case tok of
                             None \<Rightarrow> conds | Some t \<Rightarrow> conds @ [CondDict token_field t]);
                  policy = policy\<lparr>conditions := Some conds\<rparr>;
                  policy_b64 = b64encode L (json_dumps L policy);
                  fields = AList.update ''policy'' policy_b64 fields
              in case signature L s policy_b64 request of
                   Inl e \<Rightarrow>
                     (Some e,
                      request\<lparr>r_context := (r_context request)
                        \<lparr>s3_presign_post_fields := alias_store ctx_fields fields,
                         s3_presign_post_policy := alias_store ctx_policy policy\<rparr>\<rparr>)
                 | Inr sig \<Rightarrow>
                     (None,
                      request\<lparr>r_context := (r_context request)
                        \<lparr>s3_presign_post_fields :=
                           Some (AList.update ''x-amz-signature'' sig fields),
                         s3_presign_post_policy := Some policy\<rparr>\<rparr>)))"

definition S3SigV4PostAuth_add_auth ::
  "lib \<Rightarrow> signer \<Rightarrow> string \<Rightarrow> request \<Rightarrow> error option \<times> request" where
  "S3SigV4PostAuth_add_auth = post_add_auth ''x-amz-security-token''"

definition S3ExpressPostAuth_add_auth ::
  "lib \<Rightarrow> signer \<Rightarrow> string \<Rightarrow> request \<Rightarrow> error option \<times> request" where
  "S3ExpressPostAuth_add_auth = post_add_auth ''X-Amz-S3session-Token''"

text \<open>\<^verbatim>\<open>add_auth\<close> of a signer of the SigV4 family, by its class.\<close>

definition add_auth :: "lib \<Rightarrow> signer \<Rightarrow> string \<Rightarrow> request \<Rightarrow> error option \<times> request" where
  "add_auth L s now request =
     (case sg_kind s of
        S3SigV4PostAuth \<Rightarrow> S3SigV4PostAuth_add_auth L s now request
      | S3ExpressPostAuth \<Rightarrow> S3ExpressPostAuth_add_auth L s now request
      | _ \<Rightarrow> SigV4Auth_add_auth L s now request)"

subsection \<open>SigV2 and SigV3\<close>

text \<open>
  \<^verbatim>\<open>sorted(params)\<close> lists the keys in order and the loop reads \<^verbatim>\<open>params[key]\<close>
  for each: the items of the dictionary sorted by key.
\<close>

definition SigV2Auth_calc_signature ::
  "lib \<Rightarrow> credentials \<Rightarrow> request \<Rightarrow> (string \<times> pyval) list \<Rightarrow> error + string \<times> string" where
  "SigV2Auth_calc_signature L c request params =
     bindE (urlsplit L (r_url request)) (\<lambda>split.
       (let path = (if length (sr_path split) = 0 then ''/'' else sr_path split);
            sts = r_method request @ NL @ sr_netloc split @ NL @ path @ NL;
            pairs = map (\<lambda>(key, v). quote L [] key @ ''='' @ quote L ''-_~'' (py_str v))
                      (filter (\<lambda>(key, v). key \<noteq> ''Signature'') (sort_key fst params));
            qs = join ''&'' pairs;
            sts = sts @ qs;
            b64 = strip_bytes (b64encode L (hmac_digest L (secret_key c) sts))
        in Inr (qs, b64)))"

text \<open>
  The statements of \<^verbatim>\<open>SigV2Auth.add_auth\<close> on the dictionary \<^verbatim>\<open>params\<close>, which is
  \<^verbatim>\<open>request.data\<close> or \<^verbatim>\<open>request.params\<close> itself: the result is the dictionary as
  the statements leave it, with the exception if one was raised. \<open>now\<close> is
  \<^verbatim>\<open>time.strftime(ISO8601, time.gmtime())\<close>.
\<close>

definition SigV2Auth_sign_params ::
  "lib \<Rightarrow> credentials \<Rightarrow> string \<Rightarrow> request \<Rightarrow> (string \<times> pyval) list
     \<Rightarrow> error option \<times> (string \<times> pyval) list" where
  "SigV2Auth_sign_params L c now request params =
     (let params = AList.update ''AWSAccessKeyId'' (PStr (access_key c)) params;
          params = AList.update ''SignatureVersion'' (PStr ''2'') params;
          params = AList.update ''SignatureMethod'' (PStr ''HmacSHA256'') params;
          params = AList.update ''Timestamp'' (PStr now) params;
          params = (case token c of
                      None \<Rightarrow> params
                    | Some t \<Rightarrow>
                        if t \<noteq> [] then AList.update ''SecurityToken'' (PStr t) params
                        else params)
      in case SigV2Auth_calc_signature L c request params of
           Inl e \<Rightarrow> (Some e, params)
         | Inr (qs, sig) \<Rightarrow> (None, AList.update ''Signature'' (PStr sig) params))"

definition SigV2Auth_add_auth ::
  "lib \<Rightarrow> credentials option \<Rightarrow> string \<Rightarrow> request \<Rightarrow> error option \<times> request" where
  "SigV2Auth_add_auth L creds now request =
     (case creds of
        None \<Rightarrow> (Some NoCredentialsError, request)
      | Some c \<Rightarrow>
          if data_truthy (r_data request) then
            (case r_data request of
               DataDict params \<Rightarrow>
                 (case SigV2Auth_sign_params L c now request params of
                    (e, params) \<Rightarrow> (e, request\<lparr>r_data := DataDict params\<rparr>))
             | _ \<Rightarrow> (Some TypeError, request))
          else
            (case SigV2Auth_sign_params L c now request (r_params request) of
               (e, params) \<Rightarrow> (e, request\<lparr>r_params := params\<rparr>)))"

text \<open>
  \<^verbatim>\<open>SigV3Auth.add_auth\<close>; \<open>now\<close> is \<^verbatim>\<open>formatdate(usegmt=True)\<close>.
\<close>

definition SigV3Auth_add_auth ::
  "lib \<Rightarrow> credentials option \<Rightarrow> string \<Rightarrow> request \<Rightarrow> error option \<times> request" where
  "SigV3Auth_add_auth L creds now request =
     (case creds of
        None \<Rightarrow> (Some NoCredentialsError, request)
      | Some c \<Rightarrow>
          (let request = (if has_header request ''Date''
                          then del_header request ''Date'' else request);
               request = set_header request ''Date'' (Some now);
               request =
                 (if token_truthy c then
                    set_header
                      (if has_header request ''X-Amz-Security-Token''
                       then del_header request ''X-Amz-Security-Token'' else request)
                      ''X-Amz-Security-Token'' (token c)
                  else request)
           in case hdr_get (r_headers request) ''Date'' of
                None \<Rightarrow> (Some AttributeError, request)
              | Some d \<Rightarrow>
                  (let encoded_signature =
                         strip_bytes (encodebytes L (hmac_digest L (secret_key c) d));
                       sig = ''AWS3-HTTPS AWSAccessKeyId='' @ access_key c
                             @ '',Algorithm='' @ ''HmacSHA256''
                             @ '',Signature='' @ encoded_signature;
                       request = (if has_header request ''X-Amzn-Authorization''
                                  then del_header request ''X-Amzn-Authorization'' else request)
                   in (None, set_header request ''X-Amzn-Authorization'' (Some sig)))))"

subsection \<open>A reference instance of the library\<close>






























definition example_credentials :: credentials where
  "example_credentials =
     \<lparr>access_key = ''AKIDEXAMPLE'',
      secret_key = ''wJalrXUtnFEMI/K7MDENG+bPxRfiCYEXAMPLEKEY'',
      token = None\<rparr>"

definition example_signer :: "kind \<Rightarrow> credentials option \<Rightarrow> signer" where
  "example_signer k c =
     \<lparr>sg_kind = k, sg_credentials = c, sg_service_name = ''iam'',
      sg_region_name = ''us-east-1'', sg_expires = 3600\<rparr>"


subsection \<open>The signer registry and the resolver\<close>

text \<open>
  The keys of \<^verbatim>\<open>AUTH_TYPE_MAPS\<close> (the values are the signer classes, which the
  resolver never looks at) and the table \<^verbatim>\<open>AUTH_TYPE_TO_SIGNATURE_VERSION\<close>.
\<close>

definition AUTH_TYPE_MAPS :: "string list" where
  "AUTH_TYPE_MAPS =
     [''v2'', ''v4'', ''v4a'', ''v4-query'', ''v3'', ''v3https'', ''s3v4'', ''s3v4-query'',
      ''s3v4-presign-post'', ''s3v4a'', ''s3v4a-query'', ''v4-s3express'',
      ''v4-s3express-query'', ''v4-s3express-presign-post'', ''bearer'']"

definition AUTH_TYPE_TO_SIGNATURE_VERSION :: "(string \<times> string) list" where
  "AUTH_TYPE_TO_SIGNATURE_VERSION =
     [(''aws.auth#sigv4'', ''v4''),
      (''aws.auth#sigv4a'', ''v4a''),
      (''smithy.api#httpBearerAuth'', ''bearer''),
      (''smithy.api#noAuth'', ''none'')]"

text \<open>
  The loop of \<^verbatim>\<open>resolve_auth_type\<close> over the two module-level tables, which are
  parameters here: \<open>t2s\<close> is the trait-to-scheme table, \<open>reg\<close> the keys of the
  registry, \<open>whole\<close> the complete trait list (the payload of the final exception) and the
  last argument the traits not yet visited.
\<close>

fun resolve_loop ::
  "(string \<times> string) list \<Rightarrow> string list \<Rightarrow> string list \<Rightarrow> string list \<Rightarrow> error + string" where
  "resolve_loop t2s reg whole [] = Inl (UnsupportedSignatureVersionError whole)"
| "resolve_loop t2s reg whole (auth_type # rest) =
     (if auth_type = ''smithy.api#noAuth'' then
        (case map_of t2s auth_type of
           Some v \<Rightarrow> Inr v
         | None \<Rightarrow> Inl KeyError)
      else
        (case map_of t2s auth_type of
           Some signature_version \<Rightarrow>
             (if signature_version \<in> set reg then Inr signature_version
              else resolve_loop t2s reg whole rest)
         | None \<Rightarrow> Inl (UnknownSignatureVersionError auth_type)))"

definition resolve_auth_type :: "string list \<Rightarrow> error + string" where
  "resolve_auth_type auth_trait =
     resolve_loop AUTH_TYPE_TO_SIGNATURE_VERSION AUTH_TYPE_MAPS auth_trait auth_trait"

text \<open>
  The resolver as the specification words it, for comparison with the code: return the
  scheme tag of the first trait whose tag is in the registry, skip a known trait whose tag
  is not, fail on an unknown trait, fail on an exhausted list. It has no special case.
\<close>

fun spec_resolve_loop ::
  "(string \<times> string) list \<Rightarrow> string list \<Rightarrow> string list \<Rightarrow> string list \<Rightarrow> error + string" where
  "spec_resolve_loop t2s reg whole [] = Inl (UnsupportedSignatureVersionError whole)"
| "spec_resolve_loop t2s reg whole (t # rest) =
     (case map_of t2s t of
        None \<Rightarrow> Inl (UnknownSignatureVersionError t)
      | Some tag \<Rightarrow> if tag \<in> set reg then Inr tag else spec_resolve_loop t2s reg whole rest)"

definition spec_resolve_auth_type :: "string list \<Rightarrow> error + string" where
  "spec_resolve_auth_type auth_trait =
     spec_resolve_loop AUTH_TYPE_TO_SIGNATURE_VERSION AUTH_TYPE_MAPS auth_trait auth_trait"

text \<open>
  A trait the loop passes over: it is not \<^verbatim>\<open>smithy.api#noAuth\<close>, the trait table
  knows it, and its scheme tag is not a key of the registry.
\<close>

definition skipped :: "(string \<times> string) list \<Rightarrow> string list \<Rightarrow> string \<Rightarrow> bool" where
  "skipped t2s reg t =
     (t \<noteq> ''smithy.api#noAuth'' \<and>
      (case map_of t2s t of Some tag \<Rightarrow> tag \<notin> set reg | None \<Rightarrow> False))"

subsection \<open>Auxiliary notions for the properties\<close>

text \<open>
  A byte sequence cut into pieces of \<open>n\<close> bytes, the last one possibly shorter.
\<close>

function chop :: "nat \<Rightarrow> string \<Rightarrow> string list" where
  "chop n bs = (if n = 0 \<or> bs = [] then [] else take n bs # chop n (drop n bs))"
  by pat_completeness auto
termination
  by (relation "measure (\<lambda>(n, bs). length bs)") auto

declare chop.simps [simp del]

text \<open>
  The header rewrites of \<^verbatim>\<open>SigV4Auth._modify_request_before_signing\<close> in closed
  form, for a request whose context has the timestamp \<open>t\<close> and a signer with the
  credentials \<open>c\<close>: the date rule, the session token, the unsigned-payload marker, and
  their composition after the removal of \<^verbatim>\<open>Authorization\<close>.
\<close>

definition date_step :: "lib \<Rightarrow> string \<Rightarrow> request \<Rightarrow> request" where
  "date_step L t r =
     (if has_header r ''Date''
      then del_header (set_header (del_header r ''Date'') ''Date'' (Some (formatdate L t)))
             ''X-Amz-Date''
      else set_header (del_header r ''X-Amz-Date'') ''X-Amz-Date'' (Some t))"

definition token_step :: "credentials \<Rightarrow> request \<Rightarrow> request" where
  "token_step c r =
     (if token_truthy c
      then set_header (del_header r ''X-Amz-Security-Token'') ''X-Amz-Security-Token'' (token c)
      else r)"

definition sha_step :: "request \<Rightarrow> request" where
  "sha_step r =
     (if payload_signing_enabled (r_context r) = Some False
      then set_header (del_header r ''X-Amz-Content-SHA256'') ''X-Amz-Content-SHA256''
             (Some UNSIGNED_PAYLOAD)
      else r)"

definition header_base :: "lib \<Rightarrow> credentials \<Rightarrow> string \<Rightarrow> request \<Rightarrow> request" where
  "header_base L c t r = sha_step (token_step c (date_step L t (del_header r ''Authorization'')))"




section \<open>Properties\<close>

subsection \<open>The resolver\<close>

lemma resolve_loop_skip:
  "list_all (skipped t2s reg) pre \<Longrightarrow>
     resolve_loop t2s reg whole (pre @ rest) = resolve_loop t2s reg whole rest"
  by (induction pre) (auto simp: skipped_def split: option.splits)

lemma resolve_auth_type_head:
  "resolve_auth_type (t # rest) =
     (case map_of AUTH_TYPE_TO_SIGNATURE_VERSION t of
        Some v \<Rightarrow> Inr v | None \<Rightarrow> Inl (UnknownSignatureVersionError t))"
  by (auto simp: resolve_auth_type_def AUTH_TYPE_TO_SIGNATURE_VERSION_def AUTH_TYPE_MAPS_def)

text \<open>
  C6, as the code has it. The loop passes over every trait that is known, is not
  \<^verbatim>\<open>smithy.api#noAuth\<close> and whose tag is not in the registry. At the first other trait
  it stops: \<^verbatim>\<open>smithy.api#noAuth\<close> returns its tag from the trait table without
  looking at the registry; a known trait whose tag is in the registry returns that tag; an
  unknown trait raises \<^verbatim>\<open>UnknownSignatureVersionError\<close>. A list of passed-over traits
  only raises \<^verbatim>\<open>UnsupportedSignatureVersionError\<close> with the whole list. With the two
  tables of the module every known trait other than \<^verbatim>\<open>smithy.api#noAuth\<close> has its tag
  in the registry, so \<^verbatim>\<open>resolve_auth_type\<close> is decided by the first trait.
\<close>

theorem resolve_auth_type_scan:
  "list_all (skipped t2s reg) pre \<Longrightarrow>
     resolve_loop t2s reg whole pre = Inl (UnsupportedSignatureVersionError whole) \<and>
     (map_of t2s ''smithy.api#noAuth'' = Some v \<longrightarrow>
        resolve_loop t2s reg whole (pre @ ''smithy.api#noAuth'' # post) = Inr v) \<and>
     (t \<noteq> ''smithy.api#noAuth'' \<and> map_of t2s t = Some v \<and> v \<in> set reg \<longrightarrow>
        resolve_loop t2s reg whole (pre @ t # post) = Inr v) \<and>
     (t \<noteq> ''smithy.api#noAuth'' \<and> map_of t2s t = None \<longrightarrow>
        resolve_loop t2s reg whole (pre @ t # post) = Inl (UnknownSignatureVersionError t)) \<and>
     resolve_auth_type [] = Inl (UnsupportedSignatureVersionError []) \<and>
     resolve_auth_type (t # post) =
       (case map_of AUTH_TYPE_TO_SIGNATURE_VERSION t of
          Some tag \<Rightarrow> Inr tag | None \<Rightarrow> Inl (UnknownSignatureVersionError t))"
proof -
  assume pre: "list_all (skipped t2s reg) pre"
  have a: "resolve_loop t2s reg whole pre = Inl (UnsupportedSignatureVersionError whole)"
    using resolve_loop_skip [OF pre, of whole "[]"] by simp
  have b: "\<And>x. resolve_loop t2s reg whole (pre @ x # post) = resolve_loop t2s reg whole (x # post)"
    using resolve_loop_skip [OF pre] by simp
  have c: "resolve_auth_type [] = Inl (UnsupportedSignatureVersionError [])"
    by (simp add: resolve_auth_type_def)
  show ?thesis
    using a c by (simp add: b resolve_auth_type_head)
qed

theorem resolve_auth_type_scan_witness:
  "list_all (skipped AUTH_TYPE_TO_SIGNATURE_VERSION [''v4'', ''bearer'']) [''aws.auth#sigv4a''] \<and>
   resolve_loop AUTH_TYPE_TO_SIGNATURE_VERSION [''v4'', ''bearer''] [''w''] [''aws.auth#sigv4a'']
     = Inl (UnsupportedSignatureVersionError [''w'']) \<and>
   resolve_loop AUTH_TYPE_TO_SIGNATURE_VERSION [''v4'', ''bearer''] [''w'']
     [''aws.auth#sigv4a'', ''smithy.api#noAuth'', ''aws.auth#sigv4''] = Inr ''none'' \<and>
   resolve_loop AUTH_TYPE_TO_SIGNATURE_VERSION [''v4'', ''bearer''] [''w'']
     [''aws.auth#sigv4a'', ''aws.auth#sigv4'', ''smithy.api#noAuth''] = Inr ''v4'' \<and>
   resolve_loop AUTH_TYPE_TO_SIGNATURE_VERSION [''v4'', ''bearer''] [''w'']
     [''aws.auth#sigv4a'', ''sigv9'', ''aws.auth#sigv4''] = Inl (UnknownSignatureVersionError ''sigv9'') \<and>
   resolve_auth_type [''aws.auth#sigv4a'', ''aws.auth#sigv4''] = Inr ''v4a''"
proof -
  have h: "list_all (skipped AUTH_TYPE_TO_SIGNATURE_VERSION [''v4'', ''bearer'']) [''aws.auth#sigv4a'']"
    by (simp add: skipped_def AUTH_TYPE_TO_SIGNATURE_VERSION_def)
  show ?thesis
    using h
      resolve_auth_type_scan [OF h, where v = "''none''" and post = "[''aws.auth#sigv4'']"
        and t = "''aws.auth#sigv4a''" and whole = "[''w'']"]
      resolve_auth_type_scan [OF h, where v = "''v4''" and post = "[''smithy.api#noAuth'']"
        and t = "''aws.auth#sigv4''" and whole = "[''w'']"]
      resolve_auth_type_scan [OF h, where v = "''v4''" and post = "[''aws.auth#sigv4'']"
        and t = "''sigv9''" and whole = "[''w'']"]
    by (simp add: AUTH_TYPE_TO_SIGNATURE_VERSION_def)
qed

text \<open>
  C6 as the specification words it fails on the trait list
  \<^verbatim>\<open>['smithy.api#noAuth', 'aws.auth#sigv4']\<close>: the code returns \<^verbatim>\<open>'none'\<close>, which
  is not a key of the registry, where the worded resolver passes over the first trait and
  returns \<^verbatim>\<open>'v4'\<close>.
\<close>

theorem resolve_auth_type_noauth_counterexample:
  "resolve_auth_type [''smithy.api#noAuth'', ''aws.auth#sigv4''] = Inr ''none'' \<and>
   ''none'' \<notin> set AUTH_TYPE_MAPS \<and>
   spec_resolve_auth_type [''smithy.api#noAuth'', ''aws.auth#sigv4''] = Inr ''v4''"
  by (simp add: resolve_auth_type_def spec_resolve_auth_type_def
      AUTH_TYPE_TO_SIGNATURE_VERSION_def AUTH_TYPE_MAPS_def)

subsection \<open>The payload hash\<close>



lemma chop_Nil [simp]: "chop n [] = []"
  by (subst chop.simps) simp
















end
